theory Spec2Isabelle
  imports Main "HOL-Library.Word"
begin

section \<open>JavaScript strings\<close>

text \<open>
  A JavaScript string is a sequence of UTF-16 code units. The program tests for
  white space (the regular expression class \<^verbatim>\<open>\s\<close>, \<^verbatim>\<open>trim\<close>) and for word characters
  (\<^verbatim>\<open>\w\<close>, \<^verbatim>\<open>\d\<close>), whose members lie beyond ASCII, so a code unit is a 16-bit word and
  not a byte. \<open>str\<close> turns an ASCII literal of the source into such a string.
\<close>

type_synonym jschar = "16 word"
type_synonym jsstring = "jschar list"

definition str :: "string \<Rightarrow> jsstring" where
  "str s = map of_char s"

text \<open>The single quote \<^verbatim>\<open>'\<close> (U+0027), which the messages put around paths and shebangs.\<close>

definition quote :: jsstring where
  "quote = [0x27]"

text \<open>The line feed \<^verbatim>\<open>\n\<close> (U+000A).\<close>

definition newline :: jschar where
  "newline = 0x0A"

text \<open>
  ECMAScript's \<^verbatim>\<open>\s\<close>, which is also what \<^verbatim>\<open>String.prototype.trim\<close> strips: WhiteSpace
  (TAB, VT, FF, SP, NBSP, ZWNBSP and the category Zs) and LineTerminator (LF, CR, LS, PS).
\<close>

definition isWhiteSpace :: "jschar \<Rightarrow> bool" where
  "isWhiteSpace c =
     ((0x09 \<le> c \<and> c \<le> 0x0D) \<or> c = 0x20 \<or> c = 0xA0 \<or> c = 0x1680 \<or>
      (0x2000 \<le> c \<and> c \<le> 0x200A) \<or> c = 0x2028 \<or> c = 0x2029 \<or> c = 0x202F \<or>
      c = 0x205F \<or> c = 0x3000 \<or> c = 0xFEFF)"

text \<open>
  \<^verbatim>\<open>[\w\d]\<close> of a regular expression without the flags \<^verbatim>\<open>i\<close>, \<^verbatim>\<open>u\<close> or \<^verbatim>\<open>v\<close>: the ASCII
  letters, the digits and the underscore.
\<close>

definition isWordChar :: "jschar \<Rightarrow> bool" where
  "isWordChar c =
     ((0x30 \<le> c \<and> c \<le> 0x39) \<or> (0x41 \<le> c \<and> c \<le> 0x5A) \<or> c = 0x5F \<or>
      (0x61 \<le> c \<and> c \<le> 0x7A))"

text \<open>\<^verbatim>\<open>s.startsWith(p)\<close>.\<close>

definition startsWith :: "jsstring \<Rightarrow> jsstring \<Rightarrow> bool" where
  "startsWith s p = (take (length p) s = p)"

text \<open>\<^verbatim>\<open>s.includes(n)\<close>: \<open>n\<close> occurs in \<open>s\<close> at some position.\<close>

fun includes_str :: "jsstring \<Rightarrow> jsstring \<Rightarrow> bool" where
  "includes_str [] n = (n = [])"
| "includes_str (c # cs) n = (startsWith (c # cs) n \<or> includes_str cs n)"

text \<open>\<^verbatim>\<open>s.trim()\<close>: white space is removed at both ends.\<close>

definition trim :: "jsstring \<Rightarrow> jsstring" where
  "trim s = rev (dropWhile isWhiteSpace (rev (dropWhile isWhiteSpace s)))"

text \<open>
  \<^verbatim>\<open>s.split(/\n/g)\<close>: the pieces of \<open>s\<close> between its line feeds; a string without a line
  feed (the empty one too) is its own single piece.
\<close>

fun split_lines :: "jsstring \<Rightarrow> jsstring list" where
  "split_lines [] = [[]]"
| "split_lines (c # cs) =
     (if c = newline then [] # split_lines cs
      else (c # hd (split_lines cs)) # tl (split_lines cs))"

text \<open>\<^verbatim>\<open>a.slice(1)\<close> of an array: all but its first element, nothing of an empty array.\<close>

definition slice1 :: "'a list \<Rightarrow> 'a list" where
  "slice1 a = drop 1 a"

text \<open>\<^verbatim>\<open>a.join('\n')\<close>: the elements with a line feed between neighbours.\<close>

fun join_lines :: "jsstring list \<Rightarrow> jsstring" where
  "join_lines [] = []"
| "join_lines [l] = l"
| "join_lines (l # m # ls) = l @ newline # join_lines (m # ls)"

section \<open>Shebang synthesis\<close>

text \<open>
  \<^verbatim>\<open>executable.replace(/^-S\s+/, '')\<close>, the value the source binds to \<^verbatim>\<open>cleanExecutable\<close>:
  when the string starts with \<^verbatim>\<open>-S\<close> and at least one white space character, these and
  all white space that follows (the quantifier is greedy) are removed; any other string
  is returned as it is.
\<close>

definition cleanExecutable :: "jsstring \<Rightarrow> jsstring" where
  "cleanExecutable executable =
     (case executable of
        a # b # rest \<Rightarrow>
          (if a = 0x2D \<and> b = 0x53 \<and> rest \<noteq> [] \<and> isWhiteSpace (hd rest)
           then dropWhile isWhiteSpace rest else executable)
      | _ \<Rightarrow> executable)"

text \<open>\<^verbatim>\<open>createShebang\<close> of the later version (with \<^verbatim>\<open>--force\<close> and \<^verbatim>\<open>--dry-run\<close>).\<close>

definition createShebang :: "jsstring \<Rightarrow> jsstring" where
  "createShebang executable =
     (if includes_str (cleanExecutable executable) (str '' '')
      then str ''#!/usr/bin/env -S '' @ cleanExecutable executable
      else str ''#!/usr/bin/env '' @ cleanExecutable executable)"

text \<open>\<^verbatim>\<open>createShebang\<close> of the earlier version.\<close>

definition createShebang_v1 :: "jsstring \<Rightarrow> jsstring" where
  "createShebang_v1 executable =
     (if includes_str (cleanExecutable executable) (str '' '')
      then str ''#!/usr/bin/env -S '' @ cleanExecutable executable
      else str ''#!/usr/bin/env '' @ cleanExecutable executable)"

section \<open>The file system and the console\<close>

text \<open>
  The state the program acts on: the files it can reach, each with its text (as
  \<^verbatim>\<open>readFileSync(path, 'utf8')\<close> returns it) and its permission bits, and the lines written
  to the console so far, in order, each with the stream it went to. A path that is
  present names a regular file the process may read, write and chmod; directories and
  input/output failures other than a missing file are outside the model.
\<close>

type_synonym path = jsstring

record regfile =
  content :: jsstring
  mode :: nat

datatype stream = Stdout | Stderr

record world =
  files :: "path \<rightharpoonup> regfile"
  console :: "(stream \<times> jsstring) list"

text \<open>
  How a call ends: \<open>Inl code\<close> when \<^verbatim>\<open>process.exit(code)\<close> stopped the process, \<open>Inr ()\<close> when
  the function returned to its caller; the state it leaves comes with it.
\<close>

type_synonym outcome = "(nat + unit) \<times> world"

definition console_log :: "jsstring \<Rightarrow> world \<Rightarrow> world" where
  "console_log msg w = w\<lparr>console := console w @ [(Stdout, msg)]\<rparr>"

definition console_error :: "jsstring \<Rightarrow> world \<Rightarrow> world" where
  "console_error msg w = w\<lparr>console := console w @ [(Stderr, msg)]\<rparr>"

definition process_exit :: "nat \<Rightarrow> world \<Rightarrow> outcome" where
  "process_exit code w = (Inl code, w)"

definition returns :: "world \<Rightarrow> outcome" where
  "returns w = (Inr (), w)"

text \<open>
  \<^verbatim>\<open>fs.writeFileSync(path, data)\<close>: the text of an existing file is replaced and its mode
  kept. (A missing file would be created, with mode \<^verbatim>\<open>0o666\<close> less the umask; the program
  writes only to files it has just read.)
\<close>

definition writeFileSync :: "path \<Rightarrow> jsstring \<Rightarrow> world \<Rightarrow> world" where
  "writeFileSync p data w =
     w\<lparr>files := (files w)(p \<mapsto>
        (case files w p of
           Some f \<Rightarrow> f\<lparr>content := data\<rparr>
         | None \<Rightarrow> \<lparr>content = data, mode = 438\<rparr>))\<rparr>"

text \<open>
  \<^verbatim>\<open>fs.chmodSync(path, mode)\<close>: the permission bits of the file become \<open>mode\<close>, whatever
  they were. (On a missing file it throws; the program calls it only after a write.)
\<close>

definition chmodSync :: "path \<Rightarrow> nat \<Rightarrow> world \<Rightarrow> world" where
  "chmodSync p m w =
     (case files w p of
        Some f \<Rightarrow> w\<lparr>files := (files w)(p \<mapsto> f\<lparr>mode := m\<rparr>)\<rparr>
      | None \<Rightarrow> w)"

text \<open>The octal literal \<^verbatim>\<open>0o755\<close>: \<^verbatim>\<open>rwxr-xr-x\<close>.\<close>

definition mode_0o755 :: nat where
  "mode_0o755 = 7 * 8 ^ 2 + 5 * 8 + 5"

section \<open>The applier\<close>

text \<open>The messages of \<^verbatim>\<open>addShebang\<close>, the template literals of the source.\<close>

definition msg_not_exist :: "path \<Rightarrow> jsstring" where
  "msg_not_exist filePath =
     str ''Error: File '' @ quote @ filePath @ quote @ str '' does not exist''"

definition msg_skipping :: "path \<Rightarrow> jsstring" where
  "msg_skipping filePath =
     str ''File '' @ quote @ filePath @ quote @ str '' already has a shebang, skipping''"

definition msg_would_skip :: "path \<Rightarrow> jsstring" where
  "msg_would_skip filePath =
     str ''Would skip file '' @ quote @ filePath @ quote @ str ''. It already has a shebang.''"

definition msg_would_replace :: "path \<Rightarrow> jsstring \<Rightarrow> jsstring" where
  "msg_would_replace filePath shebang =
     str ''Would replace shebang in '' @ quote @ filePath @ quote @ str '' with '' @
     quote @ trim shebang @ quote"

definition msg_would_add :: "path \<Rightarrow> jsstring \<Rightarrow> jsstring" where
  "msg_would_add filePath shebang =
     str ''Would add shebang '' @ quote @ trim shebang @ quote @ str '' to '' @
     quote @ filePath @ quote"

definition msg_added :: "path \<Rightarrow> jsstring \<Rightarrow> jsstring" where
  "msg_added filePath shebang =
     str ''Added shebang '' @ quote @ trim shebang @ quote @ str '' to '' @
     quote @ filePath @ quote @ str '' and made it executable''"

text \<open>
  \<^verbatim>\<open>addShebang(filePath, executable)\<close> of the earlier version, which has no options.
\<close>

definition addShebang_v1 :: "path \<Rightarrow> jsstring \<Rightarrow> world \<Rightarrow> outcome" where
  "addShebang_v1 filePath executable w =
     (case files w filePath of
        None \<Rightarrow> process_exit 1 (console_error (msg_not_exist filePath) w)
      | Some f \<Rightarrow>
          (let content0 = content f;
               shebang = createShebang_v1 executable @ [newline]
           in if startsWith content0 (str ''#!'')
              then returns (console_log (msg_skipping filePath) w)
              else
                (let newContent = shebang @ content0
                 in returns (console_log (msg_added filePath shebang)
                      (chmodSync filePath mode_0o755
                        (writeFileSync filePath newContent w))))))"

text \<open>
  The options object of the later version. (\<^verbatim>\<open>help\<close> is a keyword of Isabelle, so the two
  fields that \<^verbatim>\<open>main\<close> alone reads carry a suffix.)
\<close>

record options =
  help_opt :: bool
  version_opt :: bool
  force :: bool
  dryRun :: bool

text \<open>
  The end of the later \<^verbatim>\<open>addShebang\<close>, from \<^verbatim>\<open>if (dryRun)\<close> after the shebang check to the
  last line: it is reached with the text read from the file, or, on the force path, with
  that text less its first line.
\<close>

definition addShebang_write ::
  "path \<Rightarrow> jsstring \<Rightarrow> jsstring \<Rightarrow> options \<Rightarrow> world \<Rightarrow> outcome" where
  "addShebang_write filePath shebang content1 opts w =
     (if dryRun opts
      then returns (console_log (msg_would_add filePath shebang) w)
      else
        (let newContent = shebang @ content1
         in returns (console_log (msg_added filePath shebang)
              (chmodSync filePath mode_0o755
                (writeFileSync filePath newContent w)))))"

text \<open>\<^verbatim>\<open>addShebang(filePath, executable, { force, dryRun })\<close> of the later version.\<close>

definition addShebang :: "path \<Rightarrow> jsstring \<Rightarrow> options \<Rightarrow> world \<Rightarrow> outcome" where
  "addShebang filePath executable opts w =
     (case files w filePath of
        None \<Rightarrow> process_exit 1 (console_error (msg_not_exist filePath) w)
      | Some f \<Rightarrow>
          (let content0 = content f;
               shebang = createShebang executable @ [newline]
           in if startsWith content0 (str ''#!'')
              then
                (if dryRun opts
                 then
                   (if \<not> force opts
                    then returns (console_log (msg_would_skip filePath) w)
                    else returns (console_log (msg_would_replace filePath shebang) w))
                 else
                   (if \<not> force opts
                    then returns (console_log (msg_skipping filePath) w)
                    else addShebang_write filePath shebang
                           (join_lines (slice1 (split_lines content0))) opts w))
              else addShebang_write filePath shebang content0 opts w))"

text \<open>
  The specification speaks of removing the first line, "up to and including the first"
  line feed: this is that operation, written from those words, to compare with what the
  source does
  (\<^verbatim>\<open>split\<close>, \<^verbatim>\<open>slice(1)\<close>, \<^verbatim>\<open>join\<close>).
\<close>

definition removeFirstLine_spec :: "jsstring \<Rightarrow> jsstring" where
  "removeFirstLine_spec s = drop 1 (dropWhile (\<lambda>c. c \<noteq> newline) s)"

section \<open>Argument parsing\<close>

text \<open>
  \<^verbatim>\<open>arg.match(/^--?[\w\d]+$/)\<close>: the whole of \<open>arg\<close> is one hyphen or two, followed by one
  or more word characters. (Without the flag \<^verbatim>\<open>m\<close>, \<^verbatim>\<open>^\<close> and \<^verbatim>\<open>$\<close> match at the two ends of
  the string only.)
\<close>

definition matchesOptionPattern :: "jsstring \<Rightarrow> bool" where
  "matchesOptionPattern arg =
     (case arg of
        a # b # rest \<Rightarrow>
          a = 0x2D \<and>
          ((b = 0x2D \<and> rest \<noteq> [] \<and> list_all isWordChar rest) \<or>
           list_all isWordChar (b # rest))
      | _ \<Rightarrow> False)"

definition msg_unknown_option :: "jsstring \<Rightarrow> jsstring" where
  "msg_unknown_option arg = str ''Unknown option '' @ quote @ arg @ quote"

text \<open>
  The loop of \<^verbatim>\<open>parseArgs\<close> over the arguments, with the options and the positional
  values collected so far; \<open>Inl\<close> carries the message of the \<^verbatim>\<open>Error\<close> thrown.
\<close>

fun parseArgs_loop ::
  "jsstring list \<Rightarrow> options \<Rightarrow> jsstring list \<Rightarrow> jsstring + (options \<times> jsstring list)" where
  "parseArgs_loop [] options positional = Inr (options, positional)"
| "parseArgs_loop (arg # args) options positional =
     (if arg = str ''--help'' \<or> arg = str ''-h''
      then parseArgs_loop args (options\<lparr>help_opt := True\<rparr>) positional
      else if arg = str ''--version'' \<or> arg = str ''-v''
      then parseArgs_loop args (options\<lparr>version_opt := True\<rparr>) positional
      else if arg = str ''--force'' \<or> arg = str ''-f''
      then parseArgs_loop args (options\<lparr>force := True\<rparr>) positional
      else if arg = str ''--dry-run'' \<or> arg = str ''-n''
      then parseArgs_loop args (options\<lparr>dryRun := True\<rparr>) positional
      else if matchesOptionPattern arg
      then Inl (msg_unknown_option arg)
      else parseArgs_loop args options (positional @ [arg]))"

definition parseArgs :: "jsstring list \<Rightarrow> jsstring + (options \<times> jsstring list)" where
  "parseArgs args =
     (case parseArgs_loop args
             \<lparr>help_opt = False, version_opt = False, force = False, dryRun = False\<rparr> [] of
        Inl message \<Rightarrow> Inl message
      | Inr (options, positional) \<Rightarrow>
          if length positional \<noteq> 0 \<and> length positional \<noteq> 2
          then Inl (str ''Invalid number of arguments'')
          else Inr (options, positional))"

section \<open>The main program\<close>

text \<open>The double quote (U+0022) in a line of the usage text.\<close>

definition dquote :: jsstring where
  "dquote = [0x22]"

definition usage_lines :: "jsstring list" where
  "usage_lines =
     [str ''Usage:'',
      str ''  [OPTIONS] bang <filename> <executable> '',
      str ''                           # Add shebang to specific file'',
      str ''  [OPTIONS] bang           # Process all files from package.json '' @ dquote @
        str ''bang'' @ dquote @ str '' config'',
      str ''Options:'',
      str ''  --help, -h               # Print this usage information'',
      str ''  --version, -v            # Print the version number'',
      str ''  --force, -f              # Overwrite existing shebang'',
      str ''  --dry-run, -n            # Preview changes without modifying files'']"

text \<open>\<^verbatim>\<open>printUsage(print)\<close>: each line of the usage text goes through \<open>print\<close>, in order.\<close>

definition printUsage :: "(jsstring \<Rightarrow> world \<Rightarrow> world) \<Rightarrow> world \<Rightarrow> world" where
  "printUsage print w = fold print usage_lines w"

text \<open>
  What \<^verbatim>\<open>main\<close> finds when it reads the project descriptor:
  \<^verbatim>\<open>JSON.parse(fs.readFileSync('package.json', 'utf8'))\<close> throws (\<open>Unreadable\<close>), or the
  object it returns has no truthy \<^verbatim>\<open>bang\<close> field (\<open>NoBangField\<close>), or
  \<^verbatim>\<open>Object.entries(bangConfig)\<close> is the given list of pairs, in its order. The JSON parser
  is not part of the program, so \<^verbatim>\<open>main\<close> takes this value as an argument; the values of
  the mapping are taken to be strings.
\<close>

datatype manifest = Unreadable | NoBangField | Bang "(path \<times> jsstring) list"

text \<open>
  The loop \<^verbatim>\<open>for (const [filePath, executable] of Object.entries(bangConfig))\<close>: a call
  that exits the process ends the loop.
\<close>

fun forEntries :: "(path \<times> jsstring) list \<Rightarrow> options \<Rightarrow> world \<Rightarrow> outcome" where
  "forEntries [] opts w = returns w"
| "forEntries ((filePath, executable) # entries) opts w =
     (case addShebang filePath executable opts w of
        (Inl code, w') \<Rightarrow> (Inl code, w')
      | (Inr u, w') \<Rightarrow> forEntries entries opts w')"

text \<open>
  \<^verbatim>\<open>main\<close> of the later version, on the arguments \<^verbatim>\<open>process.argv.slice(2)\<close>, the version
  string of the tool's own package and the manifest. When it returns (\<open>Inr ()\<close>), the
  process ends with exit code 0.
\<close>

definition main :: "jsstring list \<Rightarrow> jsstring \<Rightarrow> manifest \<Rightarrow> world \<Rightarrow> outcome" where
  "main args pkg_version packageJson w =
     (case parseArgs args of
        Inl message \<Rightarrow>
          process_exit 1 (printUsage console_error (console_error (str ''Error: '' @ message) w))
      | Inr (options, positional) \<Rightarrow>
          if help_opt options then process_exit 0 (printUsage console_log w)
          else if version_opt options then process_exit 0 (console_log pkg_version w)
          else
            (case positional of
               [filePath, executable] \<Rightarrow> addShebang filePath executable options w
             | [] \<Rightarrow>
                 (case packageJson of
                    Unreadable \<Rightarrow>
                      process_exit 1 (console_error (str ''Error: Could not read package.json'') w)
                  | NoBangField \<Rightarrow>
                      process_exit 1
                        (console_error (str ''Add a '' @ dquote @ str ''bang'' @ dquote @
                            str '' field with file -> executable mappings'')
                          (console_error (str ''Error: No '' @ dquote @ str ''bang'' @ dquote @
                              str '' configuration found in package.json'') w))
                  | Bang entries \<Rightarrow> forEntries entries options w)
             | _ \<Rightarrow> process_exit 1 (printUsage console_error w)))"

definition exitCode :: "outcome \<Rightarrow> nat" where
  "exitCode r = (case fst r of Inl code \<Rightarrow> code | Inr u \<Rightarrow> 0)"

text \<open>The eight tokens that \<^verbatim>\<open>parseArgs\<close> compares an argument with: the recognised options.\<close>

definition recognizedOptions :: "jsstring list" where
  "recognizedOptions =
     [str ''--help'', str ''-h'', str ''--version'', str ''-v'',
      str ''--force'', str ''-f'', str ''--dry-run'', str ''-n'']"

section \<open>Example states\<close>

text \<open>
  The files of the scenarios: a script that carries a shebang already and one that
  does not, both with mode \<^verbatim>\<open>0o644\<close>; a directory with three scripts, and a manifest
  whose third target is missing from it.
\<close>

definition world_with_shebang :: world where
  "world_with_shebang =
     \<lparr>files = [str ''run.sh'' \<mapsto> \<lparr>content = str ''#!/bin/bash\<newline>echo hi'', mode = 420\<rparr>],
      console = []\<rparr>"

definition world_plain :: world where
  "world_plain =
     \<lparr>files = [str ''cli.js'' \<mapsto> \<lparr>content = str ''console.log(1)'', mode = 420\<rparr>],
      console = []\<rparr>"

definition world_three :: world where
  "world_three =
     \<lparr>files = [str ''cli.js'' \<mapsto> \<lparr>content = str ''console.log(1)'', mode = 420\<rparr>,
               str ''tool.py'' \<mapsto> \<lparr>content = str ''print(1)'', mode = 420\<rparr>,
               str ''run.sh'' \<mapsto> \<lparr>content = str ''#!/bin/bash\<newline>echo hi'', mode = 420\<rparr>],
      console = []\<rparr>"

definition example_entries :: "(path \<times> jsstring) list" where
  "example_entries =
     [(str ''cli.js'', str ''node''), (str ''tool.py'', str ''uv run --script''),
      (str ''gone.js'', str ''node''), (str ''run.sh'', str ''bash'')]"

definition default_options :: options where
  "default_options = \<lparr>help_opt = False, version_opt = False, force = False, dryRun = False\<rparr>"

section \<open>Facts about strings\<close>

lemma str_simps:
  "str [] = []"
  "str (c # cs) = of_char c # str cs"
  by (simp_all add: str_def)

lemma includes_str_single: "includes_str s [c] = (c \<in> set s)"
  by (induction s) (auto simp: startsWith_def)

lemma includes_space: "includes_str s (str '' '') = (0x20 \<in> set s)"
  by (simp add: str_simps includes_str_single)

lemma isWhiteSpace_space: "isWhiteSpace 0x20"
  by (simp add: isWhiteSpace_def)

lemma isWhiteSpace_newline: "isWhiteSpace newline"
  by (simp add: isWhiteSpace_def newline_def)

lemma startsWith_shebang_Cons: "startsWith s (str ''#!'') = (\<exists>r. s = 0x23 # 0x21 # r)"
proof (cases s)
  case Nil
  then show ?thesis by (simp add: startsWith_def str_simps)
next
  case (Cons a t)
  then show ?thesis by (cases t) (auto simp add: startsWith_def str_simps)
qed

lemma createShebang_starts: "startsWith (createShebang e) (str ''#!'')"
  by (simp add: createShebang_def startsWith_def str_simps)

subsection \<open>Stripping a leading \<^verbatim>\<open>-S\<close>\<close>

text \<open>
  What \<^verbatim>\<open>cleanExecutable\<close> does, without reference to its definition: \<^verbatim>\<open>-S\<close> and a
  non-empty run of white space are removed from the front when what follows does not
  start with white space; a string that does not start with \<^verbatim>\<open>-S\<close> and a white space
  character is kept; and every string is of one of these two kinds.
\<close>

lemma cleanExecutable_strip:
  assumes "ws \<noteq> []" and "\<forall>c \<in> set ws. isWhiteSpace c"
    and "cmd = [] \<or> \<not> isWhiteSpace (hd cmd)"
  shows "cleanExecutable (str ''-S'' @ ws @ cmd) = cmd"
proof -
  from assms(1) obtain w ws' where ws: "ws = w # ws'" by (cases ws) auto
  with assms(2) have w: "isWhiteSpace w" by simp
  from assms(2) have "dropWhile isWhiteSpace (ws @ cmd) = dropWhile isWhiteSpace cmd"
    by (simp add: dropWhile_append2)
  also from assms(3) have "dropWhile isWhiteSpace cmd = cmd"
    by (cases cmd) auto
  finally have "dropWhile isWhiteSpace (ws @ cmd) = cmd" .
  with w show ?thesis
    by (simp add: cleanExecutable_def str_simps ws)
qed

lemma cleanExecutable_keep:
  assumes "\<forall>w r. e = str ''-S'' @ w # r \<longrightarrow> \<not> isWhiteSpace w"
  shows "cleanExecutable e = e"
proof (cases e)
  case Nil
  then show ?thesis by (simp add: cleanExecutable_def)
next
  case (Cons a t)
  note e = this
  show ?thesis
  proof (cases t)
    case Nil
    with e show ?thesis by (simp add: cleanExecutable_def)
  next
    case (Cons b rest)
    show ?thesis
    proof (cases rest)
      case Nil
      with e Cons show ?thesis by (simp add: cleanExecutable_def)
    next
      case (Cons w r)
      with assms e \<open>t = b # rest\<close> have "a = 0x2D \<and> b = 0x53 \<longrightarrow> \<not> isWhiteSpace w"
        by (simp add: str_simps)
      with e \<open>t = b # rest\<close> Cons show ?thesis
        by (auto simp add: cleanExecutable_def)
    qed
  qed
qed

lemma cleanExecutable_no_whitespace:
  assumes "\<forall>c \<in> set cmd. \<not> isWhiteSpace c"
  shows "cleanExecutable cmd = cmd"
  using assms by (intro cleanExecutable_keep) auto

lemma cleanExecutable_cases:
  "(\<exists>ws. ws \<noteq> [] \<and> (\<forall>c \<in> set ws. isWhiteSpace c) \<and>
         e = str ''-S'' @ ws @ cleanExecutable e \<and>
         (cleanExecutable e = [] \<or> \<not> isWhiteSpace (hd (cleanExecutable e)))) \<or>
   ((\<forall>w r. e = str ''-S'' @ w # r \<longrightarrow> \<not> isWhiteSpace w) \<and> cleanExecutable e = e)"
proof (cases "\<exists>w r. e = str ''-S'' @ w # r \<and> isWhiteSpace w")
  case True
  then obtain w r where e: "e = str ''-S'' @ w # r" and w: "isWhiteSpace w" by blast
  let ?ws = "takeWhile isWhiteSpace (w # r)"
  from e w have c: "cleanExecutable e = dropWhile isWhiteSpace (w # r)"
    by (simp add: cleanExecutable_def str_simps)
  from w have "?ws \<noteq> []" by simp
  moreover have "\<forall>c \<in> set ?ws. isWhiteSpace c" by (auto dest: set_takeWhileD)
  moreover have "e = str ''-S'' @ ?ws @ cleanExecutable e"
    unfolding c takeWhile_dropWhile_id by (rule e)
  moreover have "cleanExecutable e = [] \<or> \<not> isWhiteSpace (hd (cleanExecutable e))"
    unfolding c using hd_dropWhile [of isWhiteSpace "w # r"] by blast
  ultimately show ?thesis by blast
next
  case False
  then have k: "\<forall>w r. e = str ''-S'' @ w # r \<longrightarrow> \<not> isWhiteSpace w" by blast
  have "cleanExecutable e = e"
  proof (cases e)
    case Nil
    then show ?thesis by (simp add: cleanExecutable_def)
  next
    case (Cons a t)
    then show ?thesis using k
      by (cases t) (auto simp add: cleanExecutable_def str_simps neq_Nil_conv)
  qed
  with k show ?thesis by blast
qed

subsection \<open>Lines\<close>

lemma split_lines_nonempty: "split_lines s \<noteq> []"
  by (induction s) auto

lemma join_lines_hd_Cons: "join_lines ((x # m) # ls) = x # join_lines (m # ls)"
  by (cases ls) auto

lemma join_split_lines: "join_lines (split_lines s) = s"
proof (induction s)
  case Nil
  show ?case by simp
next
  case (Cons c cs)
  obtain l ls where sp: "split_lines cs = l # ls"
    using split_lines_nonempty [of cs] by (cases "split_lines cs") auto
  show ?case
  proof (cases "c = newline")
    case True
    then show ?thesis using Cons.IH sp by simp
  next
    case False
    then have "join_lines (split_lines (c # cs)) = c # join_lines (l # ls)"
      using sp by (simp add: join_lines_hd_Cons)
    then show ?thesis using Cons.IH sp by simp
  qed
qed

text \<open>What the source does to drop the first line is what the claims describe.\<close>

lemma drop_first_line: "join_lines (slice1 (split_lines s)) = removeFirstLine_spec s"
proof (induction s)
  case Nil
  show ?case by (simp add: slice1_def removeFirstLine_spec_def)
next
  case (Cons c cs)
  show ?case
  proof (cases "c = newline")
    case True
    then show ?thesis
      by (simp add: slice1_def removeFirstLine_spec_def join_split_lines)
  next
    case False
    then show ?thesis using Cons.IH
      by (simp add: slice1_def removeFirstLine_spec_def drop_Suc)
  qed
qed

lemma removeFirstLine_spec_append:
  "newline \<notin> set l \<Longrightarrow> removeFirstLine_spec (l @ newline # r) = r"
  by (induction l) (auto simp add: removeFirstLine_spec_def)

section \<open>Facts about the state\<close>

lemma files_console_log: "files (console_log m w) = files w"
  by (simp add: console_log_def)

lemma files_console_error: "files (console_error m w) = files w"
  by (simp add: console_error_def)

lemma snd_returns: "snd (returns w) = w"
  by (simp add: returns_def)

lemma fst_returns: "fst (returns w) = Inr ()"
  by (simp add: returns_def)

lemma snd_process_exit: "snd (process_exit c w) = w"
  by (simp add: process_exit_def)

lemma files_write_chmod:
  assumes "files w p = Some f"
  shows "files (chmodSync p m (writeFileSync p d w)) =
           (files w)(p \<mapsto> f\<lparr>content := d, mode := m\<rparr>)"
  using assms by (simp add: chmodSync_def writeFileSync_def)

lemma addShebang_write_dry:
  "dryRun opts \<Longrightarrow>
     addShebang_write p sh c opts w = returns (console_log (msg_would_add p sh) w)"
  by (simp add: addShebang_write_def)

lemma addShebang_write_wet:
  "\<not> dryRun opts \<Longrightarrow>
     addShebang_write p sh c opts w =
       returns (console_log (msg_added p sh)
         (chmodSync p mode_0o755 (writeFileSync p (sh @ c) w)))"
  by (simp add: addShebang_write_def)

text \<open>On a file that exists the applier returns, and it neither creates nor removes a file.\<close>

lemma addShebang_exists:
  assumes "files w p \<noteq> None"
  shows "fst (addShebang p e opts w) = Inr () \<and>
         (\<forall>q. (files (snd (addShebang p e opts w)) q = None) = (files w q = None))"
proof -
  from assms obtain f where f: "files w p = Some f" by auto
  then show ?thesis
    by (simp add: addShebang_def addShebang_write_def Let_def fst_returns snd_returns
        files_console_log files_write_chmod)
qed

subsection \<open>The loop over the manifest\<close>

lemma forEntries_all_exist:
  assumes "\<forall>(q, e) \<in> set pre. files w q \<noteq> None"
  shows "fst (forEntries pre opts w) = Inr () \<and>
         (\<forall>q. (files (snd (forEntries pre opts w)) q = None) = (files w q = None))"
  using assms
proof (induction pre arbitrary: w)
  case Nil
  show ?case by (simp add: fst_returns snd_returns)
next
  case (Cons x xs)
  obtain p e where x: "x = (p, e)" by (cases x)
  obtain r w' where step: "addShebang p e opts w = (r, w')"
    by (cases "addShebang p e opts w")
  from Cons.prems x have "files w p \<noteq> None" by simp
  from addShebang_exists [OF this, of e opts] step
  have r: "r = Inr ()" and dom: "\<forall>q. (files w' q = None) = (files w q = None)"
    by simp_all
  from Cons.prems dom have "\<forall>(q, e) \<in> set xs. files w' q \<noteq> None" by auto
  from Cons.IH [OF this] dom show ?case by (simp add: x step r)
qed

text \<open>
  On targets that are all present the loop applies the applier to each in turn and
  returns.
\<close>

lemma forEntries_present:
  assumes "\<forall>(q, e) \<in> set pre. files w q \<noteq> None"
  shows "forEntries pre opts w =
           returns (fold (\<lambda>(q, e) w'. snd (addShebang q e opts w')) pre w)"
  using assms
proof (induction pre arbitrary: w)
  case Nil
  show ?case by simp
next
  case (Cons x xs)
  obtain p e where x: "x = (p, e)" by (cases x)
  obtain r w' where step: "addShebang p e opts w = (r, w')"
    by (cases "addShebang p e opts w")
  from Cons.prems x have "files w p \<noteq> None" by simp
  from addShebang_exists [OF this, of e opts] step
  have r: "r = Inr ()" and dom: "\<forall>q. (files w' q = None) = (files w q = None)"
    by simp_all
  from Cons.prems dom have "\<forall>(q, e) \<in> set xs. files w' q \<noteq> None" by auto
  from Cons.IH [OF this] show ?case by (simp add: x step r)
qed

lemma forEntries_append:
  "forEntries (pre @ post) opts w =
     (case forEntries pre opts w of
        (Inl code, w') \<Rightarrow> (Inl code, w')
      | (Inr u, w') \<Rightarrow> forEntries post opts w')"
  by (induction pre arbitrary: w) (auto simp add: returns_def split: prod.splits sum.splits)

lemma forEntries_missing:
  assumes "\<forall>(q, e) \<in> set pre. files w q \<noteq> None" and "files w p = None"
  shows "forEntries (pre @ (p, e) # post) opts w =
           process_exit 1 (console_error (msg_not_exist p) (snd (forEntries pre opts w)))"
proof -
  obtain r w' where pre: "forEntries pre opts w = (r, w')"
    by (cases "forEntries pre opts w")
  from forEntries_all_exist [OF assms(1), of opts] pre
  have r: "r = Inr ()" and dom: "\<forall>q. (files w' q = None) = (files w q = None)"
    by simp_all
  from dom assms(2) have "files w' p = None" by simp
  then have "addShebang p e opts w' = process_exit 1 (console_error (msg_not_exist p) w')"
    by (simp add: addShebang_def)
  then show ?thesis by (simp add: forEntries_append pre r process_exit_def)
qed

text \<open>
  The run over the manifest, at the first missing target: the targets before it are
  processed, then the process exits; the targets after it play no part.
\<close>

lemma main_first_missing:
  assumes "parseArgs args = Inr (opts, [])" and "\<not> help_opt opts" and "\<not> version_opt opts"
    and "\<forall>(q, e) \<in> set pre. files w q \<noteq> None" and "files w p = None"
  shows "fst (forEntries pre opts w) = Inr () \<and>
         main args pkg_version (Bang (pre @ (p, e) # post)) w =
           process_exit 1 (console_error (msg_not_exist p) (snd (forEntries pre opts w))) \<and>
         exitCode (main args pkg_version (Bang (pre @ (p, e) # post)) w) = 1"
  using assms forEntries_all_exist [OF assms(4), of opts]
    forEntries_missing [OF assms(4,5), of e post opts]
  by (simp add: main_def exitCode_def process_exit_def)

subsection \<open>The loop over the arguments\<close>

lemma files_printUsage_error: "files (printUsage console_error w) = files w"
proof -
  have "files (fold console_error ls w) = files w" for ls
    by (induction ls arbitrary: w) (simp_all add: files_console_error)
  then show ?thesis by (simp add: printUsage_def)
qed

lemma parseArgs_loop_first_unknown:
  assumes "\<forall>x \<in> set pre. x \<in> set recognizedOptions \<or> \<not> matchesOptionPattern x"
    and "a \<notin> set recognizedOptions" and "matchesOptionPattern a"
  shows "parseArgs_loop (pre @ a # post) options positional = Inl (msg_unknown_option a)"
  using assms(1)
proof (induction pre arbitrary: options positional)
  case Nil
  from assms(2,3) show ?case by (simp add: recognizedOptions_def)
next
  case (Cons x xs)
  then have x: "x \<in> set recognizedOptions \<or> \<not> matchesOptionPattern x"
    and xs: "\<forall>x \<in> set xs. x \<in> set recognizedOptions \<or> \<not> matchesOptionPattern x"
    by simp_all
  from x Cons.IH [OF xs] show ?case
    by (auto simp add: recognizedOptions_def)
qed

section \<open>Properties of shebang synthesis\<close>

text \<open>
  C6. Let \<open>cmd\<close> be a command without any white space character. The command strings that
  leave \<open>cmd\<close> when an optional leading \<^verbatim>\<open>-S\<close> and the white space after it are stripped
  are \<open>cmd\<close> itself and \<^verbatim>\<open>-S\<close>, a non-empty run \<open>ws\<close> of white space, \<open>cmd\<close>. For each of
  them the synthesised shebang is exactly \<^verbatim>\<open>#!/usr/bin/env \<close> followed by \<open>cmd\<close>, and it does
  not end with a line feed.
\<close>

theorem createShebang_without_whitespace:
  assumes "\<forall>c \<in> set cmd. \<not> isWhiteSpace c"
  shows "createShebang cmd = str ''#!/usr/bin/env '' @ cmd \<and>
         (ws \<noteq> [] \<and> (\<forall>c \<in> set ws. isWhiteSpace c) \<longrightarrow>
            createShebang (str ''-S'' @ ws @ cmd) = str ''#!/usr/bin/env '' @ cmd) \<and>
         last (str ''#!/usr/bin/env '' @ cmd) \<noteq> newline"
proof -
  from assms isWhiteSpace_space have nosp: "0x20 \<notin> set cmd" by blast
  have a: "createShebang cmd = str ''#!/usr/bin/env '' @ cmd"
    using nosp by (simp add: createShebang_def includes_space cleanExecutable_no_whitespace [OF assms])
  have b: "createShebang (str ''-S'' @ ws @ cmd) = str ''#!/usr/bin/env '' @ cmd"
    if "ws \<noteq> []" and "\<forall>c \<in> set ws. isWhiteSpace c"
  proof -
    from assms have "cmd = [] \<or> \<not> isWhiteSpace (hd cmd)" by (cases cmd) auto
    from cleanExecutable_strip [OF that this] nosp show ?thesis
      by (simp add: createShebang_def includes_space)
  qed
  have c: "last (str ''#!/usr/bin/env '' @ cmd) \<noteq> newline"
  proof (cases "cmd = []")
    case True
    then show ?thesis by (simp add: str_simps newline_def)
  next
    case False
    then have "last (str ''#!/usr/bin/env '' @ cmd) \<in> set cmd" by simp
    with assms isWhiteSpace_newline show ?thesis by metis
  qed
  from a b c show ?thesis by blast
qed

theorem createShebang_without_whitespace_witness:
  "\<not> (\<exists>c \<in> set (str ''node''). isWhiteSpace c) \<and>
   str '' '' \<noteq> [] \<and> isWhiteSpace 0x20 \<and>
   createShebang (str ''node'') = str ''#!/usr/bin/env node'' \<and>
   createShebang (str ''-S node'') = str ''#!/usr/bin/env node'' \<and>
   last (str ''#!/usr/bin/env node'') \<noteq> newline"
proof -
  have h: "\<forall>c \<in> set (str ''node''). \<not> isWhiteSpace c"
    by (simp add: str_simps isWhiteSpace_def)
  have ws: "str '' '' \<noteq> [] \<and> (\<forall>c \<in> set (str '' ''). isWhiteSpace c)"
    by (simp add: str_simps isWhiteSpace_def)
  from createShebang_without_whitespace [OF h, of "str '' ''"] ws
  have "createShebang (str ''node'') = str ''#!/usr/bin/env '' @ str ''node''"
    and "createShebang (str ''-S'' @ str '' '' @ str ''node'') = str ''#!/usr/bin/env '' @ str ''node''"
    and "last (str ''#!/usr/bin/env '' @ str ''node'') \<noteq> newline"
    by blast+
  then show ?thesis using h ws by (simp add: str_simps isWhiteSpace_space)
qed

text \<open>
  C2, as stated: whenever the command, after the removal of a leading \<^verbatim>\<open>-S\<close>, contains any
  white space character, the shebang has the \<^verbatim>\<open>-S\<close> form. The source tests
  \<^verbatim>\<open>includes(' ')\<close>, the space character only: the command \<^verbatim>\<open>uv<TAB>run\<close> has no leading
  \<^verbatim>\<open>-S\<close> to strip, contains a white space character, and gets the plain form.
\<close>

theorem createShebang_whitespace_counterexample:
  "isWhiteSpace 0x09 \<and>
   0x09 \<in> set (str ''uv'' @ [0x09] @ str ''run'') \<and>
   \<not> startsWith (str ''uv'' @ [0x09] @ str ''run'') (str ''-S'') \<and>
   cleanExecutable (str ''uv'' @ [0x09] @ str ''run'') = str ''uv'' @ [0x09] @ str ''run'' \<and>
   createShebang (str ''uv'' @ [0x09] @ str ''run'') =
     str ''#!/usr/bin/env uv'' @ [0x09] @ str ''run'' \<and>
   createShebang (str ''uv'' @ [0x09] @ str ''run'') \<noteq>
     str ''#!/usr/bin/env -S uv'' @ [0x09] @ str ''run''"
  by (simp add: createShebang_def cleanExecutable_def str_simps isWhiteSpace_def
      startsWith_def)

text \<open>
  C2, amended. Let \<open>cmd\<close> be a command that contains a space character (U+0020). The
  command strings that leave \<open>cmd\<close> when an optional leading \<^verbatim>\<open>-S\<close> and the white space
  after it are stripped are \<open>cmd\<close> itself, when it does not start with \<^verbatim>\<open>-S\<close> and a white
  space character, and \<^verbatim>\<open>-S\<close>, a non-empty run \<open>ws\<close> of white space, \<open>cmd\<close>, when \<open>cmd\<close> does
  not start with white space. For each of them the synthesised shebang is
  \<^verbatim>\<open>#!/usr/bin/env -S \<close> followed by \<open>cmd\<close>.
\<close>

theorem createShebang_with_space:
  assumes "0x20 \<in> set cmd"
  shows "((\<forall>w r. cmd = str ''-S'' @ w # r \<longrightarrow> \<not> isWhiteSpace w) \<longrightarrow>
            createShebang cmd = str ''#!/usr/bin/env -S '' @ cmd) \<and>
         (ws \<noteq> [] \<and> (\<forall>c \<in> set ws. isWhiteSpace c) \<and> \<not> isWhiteSpace (hd cmd) \<longrightarrow>
            createShebang (str ''-S'' @ ws @ cmd) = str ''#!/usr/bin/env -S '' @ cmd)"
proof -
  have a: "createShebang cmd = str ''#!/usr/bin/env -S '' @ cmd"
    if "\<forall>w r. cmd = str ''-S'' @ w # r \<longrightarrow> \<not> isWhiteSpace w"
    using assms cleanExecutable_keep [OF that]
    by (simp add: createShebang_def includes_space)
  have b: "createShebang (str ''-S'' @ ws @ cmd) = str ''#!/usr/bin/env -S '' @ cmd"
    if "ws \<noteq> []" and "\<forall>c \<in> set ws. isWhiteSpace c" and "\<not> isWhiteSpace (hd cmd)"
  proof -
    from that(3) have "cmd = [] \<or> \<not> isWhiteSpace (hd cmd)" by simp
    from cleanExecutable_strip [OF that(1,2) this] assms show ?thesis
      by (simp add: createShebang_def includes_space)
  qed
  from a b show ?thesis by blast
qed

theorem createShebang_with_space_witness:
  "0x20 \<in> set (str ''uv run --script'') \<and>
   \<not> startsWith (str ''uv run --script'') (str ''-S'') \<and>
   str '' '' \<noteq> [] \<and> isWhiteSpace 0x20 \<and> \<not> isWhiteSpace (hd (str ''uv run --script'')) \<and>
   createShebang (str ''uv run --script'') = str ''#!/usr/bin/env -S uv run --script'' \<and>
   createShebang (str ''-S uv run --script'') = str ''#!/usr/bin/env -S uv run --script''"
proof -
  have h: "0x20 \<in> set (str ''uv run --script'')"
    by (simp add: str_simps)
  have k: "\<forall>w r. str ''uv run --script'' = str ''-S'' @ w # r \<longrightarrow> \<not> isWhiteSpace w"
    by (simp add: str_simps)
  have ws: "str '' '' \<noteq> [] \<and> (\<forall>c \<in> set (str '' ''). isWhiteSpace c) \<and>
      \<not> isWhiteSpace (hd (str ''uv run --script''))"
    by (simp add: str_simps isWhiteSpace_def)
  from createShebang_with_space [OF h, of "str '' ''"] k ws
  have "createShebang (str ''uv run --script'') = str ''#!/usr/bin/env -S '' @ str ''uv run --script''"
    and "createShebang (str ''-S'' @ str '' '' @ str ''uv run --script'') =
      str ''#!/usr/bin/env -S '' @ str ''uv run --script''"
    by blast+
  then show ?thesis using h ws
    by (simp add: str_simps isWhiteSpace_space startsWith_def)
qed

section \<open>Properties of the applier\<close>

text \<open>
  C4. On a file whose text starts with \<^verbatim>\<open>#!\<close>, the applier without force, dry-run or not,
  leaves every file's text and permission bits as they were.
\<close>

theorem addShebang_skip_unchanged:
  assumes "files w filePath = Some f" and "startsWith (content f) (str ''#!'')"
    and "\<not> force opts"
  shows "files (snd (addShebang filePath executable opts w)) = files w"
  using assms by (simp add: addShebang_def Let_def snd_returns files_console_log)

theorem addShebang_skip_unchanged_witness:
  "files world_with_shebang (str ''run.sh'') =
     Some \<lparr>content = str ''#!/bin/bash\<newline>echo hi'', mode = 420\<rparr> \<and>
   startsWith (str ''#!/bin/bash\<newline>echo hi'') (str ''#!'') \<and>
   \<not> force default_options \<and>
   files (snd (addShebang (str ''run.sh'') (str ''node'') default_options world_with_shebang)) =
     files world_with_shebang"
proof -
  have h1: "files world_with_shebang (str ''run.sh'') =
      Some \<lparr>content = str ''#!/bin/bash\<newline>echo hi'', mode = 420\<rparr>"
    by (simp add: world_with_shebang_def)
  have h2: "startsWith (content \<lparr>content = str ''#!/bin/bash\<newline>echo hi'', mode = 420\<rparr>)
      (str ''#!'')"
    by (simp add: startsWith_def str_simps)
  have h3: "\<not> force default_options"
    by (simp add: default_options_def)
  from addShebang_skip_unchanged [OF h1 h2 h3, of "str ''node''"] h1 h2 h3
  show ?thesis by simp
qed

text \<open>
  C5. With dry-run the applier leaves every file's text and permission bits as they
  were, for every path (present or missing), command and force value.
\<close>

theorem addShebang_dryRun_unchanged:
  assumes "dryRun opts"
  shows "files (snd (addShebang filePath executable opts w)) = files w"
  using assms
  by (simp add: addShebang_def Let_def snd_returns snd_process_exit files_console_log
      files_console_error addShebang_write_dry split: option.splits)

theorem addShebang_dryRun_unchanged_witness:
  "dryRun (default_options\<lparr>force := True, dryRun := True\<rparr>) \<and>
   files (snd (addShebang (str ''run.sh'') (str ''node'')
            (default_options\<lparr>force := True, dryRun := True\<rparr>) world_with_shebang)) =
     files world_with_shebang"
proof -
  have h: "dryRun (default_options\<lparr>force := True, dryRun := True\<rparr>)"
    by simp
  from addShebang_dryRun_unchanged [OF h, of "str ''run.sh''" "str ''node''" world_with_shebang] h
  show ?thesis by simp
qed

text \<open>
  C7. Whenever the applier, not in dry-run, writes the file (the file has no shebang, or
  force is set), the file's mode afterwards is \<^verbatim>\<open>0o755\<close>, whatever it was before.
\<close>

theorem addShebang_write_sets_mode:
  assumes "files w filePath = Some f" and "\<not> dryRun opts"
    and "\<not> startsWith (content f) (str ''#!'') \<or> force opts"
  shows "\<exists>f'. files (snd (addShebang filePath executable opts w)) filePath = Some f' \<and>
           mode f' = mode_0o755"
  using assms
  by (auto simp add: addShebang_def Let_def snd_returns files_console_log
      addShebang_write_wet files_write_chmod)

theorem addShebang_write_sets_mode_witness:
  "files world_plain (str ''cli.js'') = Some \<lparr>content = str ''console.log(1)'', mode = 420\<rparr> \<and>
   \<not> dryRun default_options \<and>
   \<not> startsWith (str ''console.log(1)'') (str ''#!'') \<and>
   (\<exists>f'. files (snd (addShebang (str ''cli.js'') (str ''node'') default_options world_plain))
           (str ''cli.js'') = Some f' \<and> mode f' = 493)"
proof -
  have h1: "files world_plain (str ''cli.js'') =
      Some \<lparr>content = str ''console.log(1)'', mode = 420\<rparr>"
    by (simp add: world_plain_def)
  have h2: "\<not> dryRun default_options"
    by (simp add: default_options_def)
  have h3: "\<not> startsWith (content \<lparr>content = str ''console.log(1)'', mode = 420\<rparr>) (str ''#!'')"
    by (simp add: startsWith_def str_simps)
  then have h3': "\<not> startsWith (content \<lparr>content = str ''console.log(1)'', mode = 420\<rparr>)
      (str ''#!'') \<or> force default_options"
    by (rule disjI1)
  from addShebang_write_sets_mode [OF h1 h2 h3', of "str ''node''"] h1 h2 h3
  show ?thesis by (simp add: mode_0o755_def)
qed

text \<open>
  C1. On a file whose text starts with \<^verbatim>\<open>#!\<close>, the applier with force and without dry-run
  returns and leaves as the file's text the synthesised shebang, a line feed, and the
  original text without its first line (all up to and including the first line feed);
  so when the original text is a first line \<open>l\<close>, a line feed and a rest \<open>r\<close>, the rest
  follows the new shebang line unchanged. No other file changes.
\<close>

theorem addShebang_force_replaces_first_line:
  assumes "files w filePath = Some f" and "startsWith (content f) (str ''#!'')"
    and "force opts" and "\<not> dryRun opts"
  shows "fst (addShebang filePath executable opts w) = Inr () \<and>
         files (snd (addShebang filePath executable opts w)) =
           (files w)(filePath \<mapsto>
              f\<lparr>content := createShebang executable @ newline # removeFirstLine_spec (content f),
                mode := mode_0o755\<rparr>) \<and>
         (\<forall>l r. content f = l @ newline # r \<and> newline \<notin> set l \<longrightarrow>
            removeFirstLine_spec (content f) = r)"
  using assms
  by (simp add: addShebang_def Let_def addShebang_write_wet fst_returns snd_returns
      files_console_log files_write_chmod drop_first_line removeFirstLine_spec_append)

theorem addShebang_force_replaces_first_line_witness:
  "files world_with_shebang (str ''run.sh'') =
     Some \<lparr>content = str ''#!/bin/bash\<newline>echo hi'', mode = 420\<rparr> \<and>
   startsWith (str ''#!/bin/bash\<newline>echo hi'') (str ''#!'') \<and>
   force (default_options\<lparr>force := True\<rparr>) \<and>
   \<not> dryRun (default_options\<lparr>force := True\<rparr>) \<and>
   files (snd (addShebang (str ''run.sh'') (str ''node'') (default_options\<lparr>force := True\<rparr>)
            world_with_shebang)) (str ''run.sh'') =
     Some \<lparr>content = str ''#!/usr/bin/env node\<newline>echo hi'', mode = 493\<rparr>"
proof -
  have h1: "files world_with_shebang (str ''run.sh'') =
      Some \<lparr>content = str ''#!/bin/bash\<newline>echo hi'', mode = 420\<rparr>"
    by (simp add: world_with_shebang_def)
  have h2: "startsWith (content \<lparr>content = str ''#!/bin/bash\<newline>echo hi'', mode = 420\<rparr>)
      (str ''#!'')"
    by (simp add: startsWith_def str_simps)
  have h3: "force (default_options\<lparr>force := True\<rparr>)"
    by simp
  have h4: "\<not> dryRun (default_options\<lparr>force := True\<rparr>)"
    by (simp add: default_options_def)
  from addShebang_force_replaces_first_line [OF h1 h2 h3 h4, of "str ''node''"] h1 h2 h3 h4
  show ?thesis
    by (simp add: createShebang_def cleanExecutable_def removeFirstLine_spec_def
        mode_0o755_def newline_def startsWith_def str_simps)
qed

text \<open>
  C10. The synthesised shebang starts with \<^verbatim>\<open>#!\<close> for every command. Hence, after the
  applier has run without dry-run on a file that did not start with \<^verbatim>\<open>#!\<close>, the file
  starts with \<^verbatim>\<open>#!\<close>, and a further run without force (with any command, dry-run or
  not) leaves every file's text and permission bits as the first run left them.
\<close>

theorem addShebang_idempotent:
  assumes "files w filePath = Some f" and "\<not> startsWith (content f) (str ''#!'')"
    and "\<not> dryRun opts" and "\<not> force opts'"
  shows "startsWith (createShebang executable) (str ''#!'') \<and>
         fst (addShebang filePath executable opts w) = Inr () \<and>
         (\<exists>f'. files (snd (addShebang filePath executable opts w)) filePath = Some f' \<and>
               startsWith (content f') (str ''#!'')) \<and>
         files (snd (addShebang filePath executable' opts'
                  (snd (addShebang filePath executable opts w)))) =
           files (snd (addShebang filePath executable opts w))"
proof -
  let ?w1 = "snd (addShebang filePath executable opts w)"
  have st: "startsWith (createShebang executable) (str ''#!'')"
    by (rule createShebang_starts)
  have r: "fst (addShebang filePath executable opts w) = Inr ()"
    using assms(1-3) by (simp add: addShebang_def Let_def addShebang_write_wet fst_returns)
  have f1: "files ?w1 filePath =
      Some (f\<lparr>content := (createShebang executable @ [newline]) @ content f,
              mode := mode_0o755\<rparr>)"
    using assms(1-3)
    by (simp add: addShebang_def Let_def addShebang_write_wet snd_returns files_console_log
        files_write_chmod)
  have st1: "startsWith ((createShebang executable @ [newline]) @ content f) (str ''#!'')"
    using st by (auto simp add: startsWith_shebang_Cons)
  have "files (snd (addShebang filePath executable' opts' ?w1)) = files ?w1"
    using f1 st1 assms(4)
    by (simp add: addShebang_def Let_def snd_returns files_console_log)
  with st r f1 st1 show ?thesis by simp
qed

theorem addShebang_idempotent_witness:
  "files world_plain (str ''cli.js'') = Some \<lparr>content = str ''console.log(1)'', mode = 420\<rparr> \<and>
   \<not> startsWith (str ''console.log(1)'') (str ''#!'') \<and>
   \<not> dryRun default_options \<and> \<not> force default_options \<and>
   files (snd (addShebang (str ''cli.js'') (str ''node'') default_options
            (snd (addShebang (str ''cli.js'') (str ''node'') default_options world_plain)))) =
     files (snd (addShebang (str ''cli.js'') (str ''node'') default_options world_plain))"
proof -
  have h1: "files world_plain (str ''cli.js'') =
      Some \<lparr>content = str ''console.log(1)'', mode = 420\<rparr>"
    by (simp add: world_plain_def)
  have h2: "\<not> startsWith (content \<lparr>content = str ''console.log(1)'', mode = 420\<rparr>) (str ''#!'')"
    by (simp add: startsWith_def str_simps)
  have h3: "\<not> dryRun default_options" and h4: "\<not> force default_options"
    by (simp_all add: default_options_def)
  from addShebang_idempotent [OF h1 h2 h3 h4, of "str ''node''" "str ''node''"] h1 h2 h3 h4
  show ?thesis by simp
qed

section \<open>The earlier and the later version\<close>

text \<open>
  C9. The two versions of \<^verbatim>\<open>createShebang\<close> are the same function, and the earlier
  \<^verbatim>\<open>addShebang\<close> does to the files and the console, and ends, as the later one does with
  \<^verbatim>\<open>force\<close> and \<^verbatim>\<open>dryRun\<close> both false.
\<close>

theorem later_version_refines_earlier:
  "createShebang_v1 = createShebang \<and>
   addShebang_v1 filePath executable w =
     addShebang filePath executable
       \<lparr>help_opt = h, version_opt = v, force = False, dryRun = False\<rparr> w"
proof -
  have "createShebang_v1 = createShebang"
    by (rule ext) (simp add: createShebang_v1_def createShebang_def)
  then show ?thesis
    by (simp add: addShebang_v1_def addShebang_def addShebang_write_def Let_def
        split: option.splits)
qed

section \<open>Properties of the main program\<close>

text \<open>
  C3, as stated: every token that starts with a hyphen and is not a recognised option
  makes argument parsing fail. The pattern the source tests admits word characters only
  after the hyphens, so a token such as \<^verbatim>\<open>-S node\<close>, the command that \<^verbatim>\<open>createShebang\<close>
  expects to meet, is a positional value: the run returns, the exit code is 0, and the
  token has been used as the command.
\<close>

theorem parseArgs_hyphen_token_counterexample:
  "startsWith (str ''-S node'') (str ''-'') \<and>
   str ''-S node'' \<notin> set recognizedOptions \<and>
   parseArgs [str ''cli.js'', str ''-S node''] =
     Inr (default_options, [str ''cli.js'', str ''-S node'']) \<and>
   exitCode (main [str ''cli.js'', str ''-S node''] (str ''1.0.0'') NoBangField world_plain) = 0 \<and>
   files (snd (main [str ''cli.js'', str ''-S node''] (str ''1.0.0'') NoBangField world_plain))
       (str ''cli.js'') =
     Some \<lparr>content = str ''#!/usr/bin/env node\<newline>console.log(1)'', mode = 493\<rparr>"
  by (simp add: startsWith_def recognizedOptions_def parseArgs_def str_simps main_def
      exitCode_def matchesOptionPattern_def isWordChar_def isWhiteSpace_def
      default_options_def world_plain_def addShebang_def addShebang_write_def Let_def
      returns_def createShebang_def cleanExecutable_def files_console_log
      chmodSync_def writeFileSync_def mode_0o755_def newline_def)

text \<open>
  C3, amended: when some argument consists of one hyphen or two followed by one or more
  word characters (letters, digits, underscore) and nothing else, and is not a recognised
  option, the arguments split at the first such argument \<open>a\<close> (none before it is one):
  argument parsing fails with the unknown-option error that names \<open>a\<close>, and \<^verbatim>\<open>main\<close>
  prints that error and the usage text to the error stream and exits with code 1, having
  touched no file.
\<close>

theorem parseArgs_unknown_option:
  assumes "arg \<in> set args" and "arg \<notin> set recognizedOptions" and "matchesOptionPattern arg"
  shows "\<exists>pre a post.
           args = pre @ a # post \<and>
           (\<forall>x \<in> set pre. x \<in> set recognizedOptions \<or> \<not> matchesOptionPattern x) \<and>
           a \<notin> set recognizedOptions \<and> matchesOptionPattern a \<and>
           parseArgs args = Inl (msg_unknown_option a) \<and>
           main args pkg_version packageJson w =
             process_exit 1 (printUsage console_error
               (console_error (str ''Error: '' @ msg_unknown_option a) w)) \<and>
           exitCode (main args pkg_version packageJson w) = 1 \<and>
           files (snd (main args pkg_version packageJson w)) = files w"
proof -
  let ?P = "\<lambda>x. x \<notin> set recognizedOptions \<and> matchesOptionPattern x"
  from assms have "\<exists>x \<in> set args. ?P x" by blast
  from split_list_first_prop [OF this]
  obtain pre a post where dec: "args = pre @ a # post" and a: "?P a"
    and pre: "\<forall>x \<in> set pre. \<not> ?P x"
    by blast
  from pre have pre': "\<forall>x \<in> set pre. x \<in> set recognizedOptions \<or> \<not> matchesOptionPattern x"
    by blast
  from a have a1: "a \<notin> set recognizedOptions" and a2: "matchesOptionPattern a" by simp_all
  from parseArgs_loop_first_unknown [OF pre' a1 a2]
  have p: "parseArgs args = Inl (msg_unknown_option a)"
    by (simp add: parseArgs_def dec)
  then have m: "main args pkg_version packageJson w =
             process_exit 1 (printUsage console_error
               (console_error (str ''Error: '' @ msg_unknown_option a) w))"
    by (simp add: main_def)
  then have "exitCode (main args pkg_version packageJson w) = 1"
    and "files (snd (main args pkg_version packageJson w)) = files w"
    by (simp_all add: exitCode_def process_exit_def files_printUsage_error files_console_error)
  with dec pre' a1 a2 p m show ?thesis by blast
qed

theorem parseArgs_unknown_option_witness:
  "str ''--quiet'' \<in> set [str ''--force'', str ''--verbose'', str ''cli.js'', str ''--quiet''] \<and>
   str ''--quiet'' \<notin> set recognizedOptions \<and>
   matchesOptionPattern (str ''--quiet'') \<and>
   parseArgs [str ''--force'', str ''--verbose'', str ''cli.js'', str ''--quiet''] =
     Inl (str ''Unknown option '' @ quote @ str ''--verbose'' @ quote) \<and>
   exitCode (main [str ''--force'', str ''--verbose'', str ''cli.js'', str ''--quiet'']
     (str ''1.0.0'') NoBangField world_plain) = 1 \<and>
   files (snd (main [str ''--force'', str ''--verbose'', str ''cli.js'', str ''--quiet'']
     (str ''1.0.0'') NoBangField world_plain)) = files world_plain"
proof -
  let ?args = "[str ''--force'', str ''--verbose'', str ''cli.js'', str ''--quiet'']"
  have h1: "str ''--quiet'' \<in> set ?args"
    by simp
  have h2: "str ''--quiet'' \<notin> set recognizedOptions"
    by (simp add: recognizedOptions_def str_simps)
  have h3: "matchesOptionPattern (str ''--quiet'')"
    by (simp add: matchesOptionPattern_def isWordChar_def str_simps)
  from parseArgs_unknown_option [OF h1 h2 h3, of "str ''1.0.0''" NoBangField world_plain]
  obtain a where p: "parseArgs ?args = Inl (msg_unknown_option a)"
    and c: "exitCode (main ?args (str ''1.0.0'') NoBangField world_plain) = 1"
    and f: "files (snd (main ?args (str ''1.0.0'') NoBangField world_plain)) = files world_plain"
    by blast
  have "parseArgs ?args = Inl (msg_unknown_option (str ''--verbose''))"
    by (simp add: parseArgs_def matchesOptionPattern_def isWordChar_def str_simps)
  then have "parseArgs ?args = Inl (str ''Unknown option '' @ quote @ str ''--verbose'' @ quote)"
    by (simp add: msg_unknown_option_def)
  with h1 h2 h3 c f show ?thesis by blast
qed

text \<open>
  C8. In a run over the manifest in which some target's path is missing, there is a first
  such target \<open>p\<close>: the targets before it are all present, and the loop over them alone
  applies the applier to each of them in turn and returns. The run itself leaves the
  state that these applications produce, with the report of the missing file added, and
  exits with code 1; the targets after \<open>p\<close> have no part in the outcome, so none of them
  is read, written or reported on.
\<close>

theorem main_missing_file_aborts:
  assumes "parseArgs args = Inr (opts, [])" and "\<not> help_opt opts" and "\<not> version_opt opts"
    and "(p0, e0) \<in> set entries" and "files w p0 = None"
  shows "\<exists>pre p e post.
           entries = pre @ (p, e) # post \<and>
           (\<forall>(q, e') \<in> set pre. files w q \<noteq> None) \<and> files w p = None \<and>
           main args pkg_version (Bang entries) w =
             process_exit 1 (console_error (msg_not_exist p)
               (fold (\<lambda>(q, e') w'. snd (addShebang q e' opts w')) pre w)) \<and>
           forEntries pre opts w =
             returns (fold (\<lambda>(q, e') w'. snd (addShebang q e' opts w')) pre w) \<and>
           exitCode (main args pkg_version (Bang entries) w) = 1"
proof -
  from assms(4,5) have "\<exists>x \<in> set entries. files w (fst x) = None"
    by force
  from split_list_first_prop [OF this]
  obtain pre x post where dec: "entries = pre @ x # post"
    and x: "files w (fst x) = None" and pre: "\<forall>y \<in> set pre. files w (fst y) \<noteq> None"
    by blast
  obtain p e where pe: "x = (p, e)" by (cases x)
  from pre have pre': "\<forall>(q, e') \<in> set pre. files w q \<noteq> None" by auto
  from x pe have p: "files w p = None" by simp
  from main_first_missing [OF assms(1-3) pre' p, of pkg_version e post]
  have m: "main args pkg_version (Bang entries) w =
             process_exit 1 (console_error (msg_not_exist p)
               (fold (\<lambda>(q, e') w'. snd (addShebang q e' opts w')) pre w))"
    and c: "exitCode (main args pkg_version (Bang entries) w) = 1"
    by (simp_all add: dec pe forEntries_present [OF pre'] snd_returns exitCode_def
        process_exit_def)
  note r = forEntries_present [OF pre', of opts]
  from dec pe pre' p m c r show ?thesis by blast
qed

theorem main_missing_file_aborts_witness:
  "parseArgs [str ''--force''] = Inr (default_options\<lparr>force := True\<rparr>, []) \<and>
   \<not> help_opt (default_options\<lparr>force := True\<rparr>) \<and>
   \<not> version_opt (default_options\<lparr>force := True\<rparr>) \<and>
   (str ''gone.js'', str ''node'') \<in> set example_entries \<and>
   files world_three (str ''gone.js'') = None \<and>
   exitCode (main [str ''--force''] (str ''1.0.0'') (Bang example_entries) world_three) = 1 \<and>
   files (snd (main [str ''--force''] (str ''1.0.0'') (Bang example_entries) world_three)) =
     (files world_three)
       (str ''cli.js'' \<mapsto>
          \<lparr>content = str ''#!/usr/bin/env node\<newline>console.log(1)'', mode = 493\<rparr>,
        str ''tool.py'' \<mapsto>
          \<lparr>content = str ''#!/usr/bin/env -S uv run --script\<newline>print(1)'', mode = 493\<rparr>)"
proof -
  have h1: "parseArgs [str ''--force''] = Inr (default_options\<lparr>force := True\<rparr>, [])"
    by (simp add: parseArgs_def default_options_def str_simps)
  have h2: "\<not> help_opt (default_options\<lparr>force := True\<rparr>)"
    and h3: "\<not> version_opt (default_options\<lparr>force := True\<rparr>)"
    by (simp_all add: default_options_def)
  have h4: "(str ''gone.js'', str ''node'') \<in> set example_entries"
    by (simp add: example_entries_def)
  have h5: "files world_three (str ''gone.js'') = None"
    by (simp add: world_three_def str_simps)
  from main_missing_file_aborts [OF h1 h2 h3 h4 h5, of "str ''1.0.0''"]
  have code: "exitCode (main [str ''--force''] (str ''1.0.0'') (Bang example_entries) world_three) = 1"
    by blast
  have run: "main [str ''--force''] (str ''1.0.0'') (Bang example_entries) world_three =
      forEntries example_entries (default_options\<lparr>force := True\<rparr>) world_three"
    using h2 h3 by (simp add: main_def h1)
  have after: "files (snd (main [str ''--force''] (str ''1.0.0'') (Bang example_entries) world_three)) =
     (files world_three)
       (str ''cli.js'' \<mapsto>
          \<lparr>content = str ''#!/usr/bin/env node\<newline>console.log(1)'', mode = 493\<rparr>,
        str ''tool.py'' \<mapsto>
          \<lparr>content = str ''#!/usr/bin/env -S uv run --script\<newline>print(1)'', mode = 493\<rparr>)"
    unfolding run
    by (simp add: example_entries_def world_three_def str_simps addShebang_def
        addShebang_write_def Let_def returns_def process_exit_def startsWith_def
        default_options_def createShebang_def cleanExecutable_def files_console_log
        files_console_error chmodSync_def writeFileSync_def mode_0o755_def newline_def)
  from h1 h2 h3 h4 h5 code after show ?thesis by blast
qed

end
